theory Spec2Isabelle
  imports Main "HOL-Library.AList" "HOL-Library.Sublist"
begin

section \<open>Key symbols and the table of named keys (keybinding.py)\<close>

text \<open>
  A key symbol is a Python integer. Binding strings are ASCII text: \<^typ>\<open>string\<close> values all
  of whose characters are below 128 (predicate \<open>is_ascii\<close>). On such text the
  re-encoding \<^verbatim>\<open>keys.encode('utf-8').decode('latin-1')\<close> of \<^verbatim>\<open>_clean_input\<close> is the
  identity, \<^verbatim>\<open>str.lower\<close> changes the letters A to Z only and \<^verbatim>\<open>str.isdigit\<close> holds of the
  non-empty strings of the digits 0 to 9.

  The constants of the \<^verbatim>\<open>curses\<close> module are those of ncurses' \<^verbatim>\<open>curses.h\<close>; the doctest of
  \<^verbatim>\<open>parse_keybinding\<close> shows \<^verbatim>\<open>KEY_LEFT\<close> as 260.
\<close>

definition ord :: "char \<Rightarrow> int" where
  "ord c = of_char c"

definition chr :: "int \<Rightarrow> char" where
  "chr k = char_of k"

definition is_ascii :: "string \<Rightarrow> bool" where
  "is_ascii s = list_all (\<lambda>c. ord c < 128) s"

definition DIGITS :: "int list" where
  "DIGITS = map ord ''0123456789''"

definition ANYKEY :: int where "ANYKEY = 9001"
definition PASSIVE_ACTION :: int where "PASSIVE_ACTION = 9002"
definition ALT_KEY :: int where "ALT_KEY = 9003"
definition QUANT_KEY :: int where "QUANT_KEY = 9004"

definition KEY_DOWN :: int where "KEY_DOWN = 258"
definition KEY_UP :: int where "KEY_UP = 259"
definition KEY_LEFT :: int where "KEY_LEFT = 260"
definition KEY_RIGHT :: int where "KEY_RIGHT = 261"
definition KEY_HOME :: int where "KEY_HOME = 262"
definition KEY_BACKSPACE :: int where "KEY_BACKSPACE = 263"
definition KEY_F0 :: int where "KEY_F0 = 264"
definition KEY_DC :: int where "KEY_DC = 330"
definition KEY_IC :: int where "KEY_IC = 331"
definition KEY_NPAGE :: int where "KEY_NPAGE = 338"
definition KEY_PPAGE :: int where "KEY_PPAGE = 339"
definition KEY_BTAB :: int where "KEY_BTAB = 353"
definition KEY_END :: int where "KEY_END = 360"
definition KEY_SDC :: int where "KEY_SDC = 383"
definition ascii_DEL :: int where "ascii_DEL = 127"
definition ascii_ESC :: int where "ascii_ESC = 27"

text \<open>A value of \<^verbatim>\<open>SPECIAL_KEYS\<close> is an integer or a pair \<^verbatim>\<open>(ALT_KEY, val)\<close>.\<close>

datatype key_entry = Single int | Pair int int

text \<open>Decimal notation of an integer, Python's \<^verbatim>\<open>str(n)\<close>.\<close>

fun str_nat :: "nat \<Rightarrow> string" where
  "str_nat n = (if n < 10 then [char_of (48 + n)] else str_nat (n div 10) @ [char_of (48 + n mod 10)])"

declare str_nat.simps [simp del]

definition str_int :: "int \<Rightarrow> string" where
  "str_int k = (if k < 0 then CHR ''-'' # str_nat (nat (- k)) else str_nat (nat k))"

text \<open>The dictionary literal at the head of the module, in the order it is written.\<close>

definition SPECIAL_KEYS_literal :: "(string \<times> int) list" where
  "SPECIAL_KEYS_literal =
    [(''bs'', KEY_BACKSPACE),
     (''backspace'', KEY_BACKSPACE),
     (''backspace2'', ascii_DEL),
     (''delete'', KEY_DC),
     (''s-delete'', KEY_SDC),
     (''insert'', KEY_IC),
     (''cr'', 10),
     (''enter'', 10),
     (''return'', 10),
     (''space'', 32),
     (''esc'', ascii_ESC),
     (''escape'', ascii_ESC),
     (''down'', KEY_DOWN),
     (''up'', KEY_UP),
     (''left'', KEY_LEFT),
     (''right'', KEY_RIGHT),
     (''pagedown'', KEY_NPAGE),
     (''pageup'', KEY_PPAGE),
     (''home'', KEY_HOME),
     (''end'', KEY_END),
     (''tab'', 9),
     (''s-tab'', KEY_BTAB),
     (''lt'', 60),
     (''gt'', 62)]"

definition VERY_SPECIAL_KEYS :: "(string \<times> int) list" where
  "VERY_SPECIAL_KEYS =
    [(''any'', ANYKEY),
     (''alt'', ALT_KEY),
     (''bg'', PASSIVE_ACTION),
     (''allow_quantifiers'', QUANT_KEY)]"

text \<open>
  \<^verbatim>\<open>special_keys_init\<close> and the \<^verbatim>\<open>update\<close> with \<^verbatim>\<open>VERY_SPECIAL_KEYS\<close>, as the list of the
  assignments \<^verbatim>\<open>SPECIAL_KEYS[k] = v\<close> in the order they are made. No name is assigned
  twice, so the list is the dictionary in Python's order of insertion.
\<close>

definition SPECIAL_KEYS :: "(string \<times> key_entry) list" where
  "SPECIAL_KEYS =
     map (\<lambda>(k, v). (k, Single v)) SPECIAL_KEYS_literal
     @ map (\<lambda>(k, v). (''a-'' @ k, Pair ALT_KEY v)) SPECIAL_KEYS_literal
     @ map (\<lambda>c. (''a-'' @ [c], Pair ALT_KEY (ord c)))
         ''abcdefghijklmnopqrstuvwxyzABCDEFGHIJKLMNOPQRSTUVWXYZ0123456789_!{}[],./''
     @ map (\<lambda>c. (''c-'' @ [c], Single (ord c - 96))) ''abcdefghijklmnopqrstuvwxyz_''
     @ [(''c-space'', Single 0)]
     @ map (\<lambda>n. (''f'' @ str_nat n, Single (KEY_F0 + int n))) [0..<64]
     @ map (\<lambda>(k, v). (k, Single v)) VERY_SPECIAL_KEYS"

text \<open>\<^verbatim>\<open>SPECIAL_KEYS[string]\<close>; \<open>None\<close> is the \<^verbatim>\<open>KeyError\<close>.\<close>

definition SPECIAL_KEYS_get :: "string \<Rightarrow> key_entry option" where
  "SPECIAL_KEYS_get string = map_of SPECIAL_KEYS string"

text \<open>
  \<^verbatim>\<open>REVERSED_SPECIAL_KEYS = {v: k for k, v in SPECIAL_KEYS.items()}\<close>: of several names with
  one value the last one in the order of \<^verbatim>\<open>SPECIAL_KEYS\<close> stays, so the lookup reads the
  items from the last to the first.
\<close>

definition REVERSED_SPECIAL_KEYS_get :: "key_entry \<Rightarrow> string option" where
  "REVERSED_SPECIAL_KEYS_get v = map_of (rev (map (\<lambda>(k, v). (v, k)) SPECIAL_KEYS)) v"

section \<open>The key lexer\<close>

definition lower_char :: "char \<Rightarrow> char" where
  "lower_char c = (if 65 \<le> ord c \<and> ord c \<le> 90 then chr (ord c + 32) else c)"

definition lower :: "string \<Rightarrow> string" where
  "lower s = map lower_char s"

definition isdigit :: "string \<Rightarrow> bool" where
  "isdigit s = (s \<noteq> [] \<and> list_all (\<lambda>c. 48 \<le> ord c \<and> ord c \<le> 57) s)"

text \<open>\<^verbatim>\<open>int(string)\<close> on a string of decimal digits.\<close>

definition int_of_digits :: "string \<Rightarrow> int" where
  "int_of_digits s = foldl (\<lambda>acc c. acc * 10 + (ord c - 48)) 0 s"

text \<open>
  What the closing bracket of \<^verbatim>\<open>parse_keybinding\<close> yields for the characters collected since
  the opening one: the normalisation of the name, the lookup, and the two handlers
  (\<^verbatim>\<open>KeyError\<close>: a number or the literal characters; \<^verbatim>\<open>TypeError\<close>: the value was one integer).
\<close>

definition bracket_keys :: "string \<Rightarrow> int list" where
  "bracket_keys bracket_content =
    (let string = bracket_content;
         string_lower = lower string;
         string = (if length string = 3 \<and> (take 2 string_lower = ''a-'' \<or> take 2 string_lower = ''c-'')
                   then [hd string_lower] @ ''-'' @ [last string]
                   else string_lower)
     in case SPECIAL_KEYS_get string of
          Some (Pair a b) \<Rightarrow> [a, b]
        | Some (Single k) \<Rightarrow> [k]
        | None \<Rightarrow> if isdigit string then [int_of_digits string]
                  else [ord CHR ''<''] @ map ord bracket_content @ [ord CHR ''>''])"

text \<open>
  The loop over the characters of a string, with the two variables it carries. The
  generator is read to its end by every caller, so the model returns the list of the
  values it yields.
\<close>

fun parse_loop :: "bool \<Rightarrow> string \<Rightarrow> string \<Rightarrow> int list" where
  "parse_loop in_brackets bracket_content [] =
     (if in_brackets then ord CHR ''<'' # map ord bracket_content else [])"
| "parse_loop in_brackets bracket_content (char # rest) =
     (if in_brackets then
        (if char = CHR ''>'' then bracket_keys bracket_content @ parse_loop False bracket_content rest
         else parse_loop in_brackets (bracket_content @ [char]) rest)
      else
        (if char = CHR ''<'' then parse_loop True [] rest
         else ord char # parse_loop in_brackets bracket_content rest))"

text \<open>\<^verbatim>\<open>parse_keybinding\<close> on a string (the branch \<^verbatim>\<open>isinstance(obj, str)\<close>).\<close>

definition parse_keybinding :: "string \<Rightarrow> int list" where
  "parse_keybinding obj = parse_loop False [] obj"

definition key_to_string :: "int \<Rightarrow> string" where
  "key_to_string key =
    (if 33 \<le> key \<and> key < 127 then [chr key]
     else case REVERSED_SPECIAL_KEYS_get (Single key) of
            Some name \<Rightarrow> ''<'' @ name @ ''>''
          | None \<Rightarrow> ''<'' @ str_int key @ ''>'')"

definition construct_keybinding :: "int list \<Rightarrow> string" where
  "construct_keybinding iterable = concat (map key_to_string iterable)"

section \<open>Key tries and the key map set\<close>

text \<open>
  Exceptions are values. \<open>BindingNotFound source\<close> is the \<^verbatim>\<open>KeyError\<close> that \<^verbatim>\<open>KeyMaps.copy\<close>
  raises with the message "Tried to copy the keybinding ..., but it was not found.".
\<close>

datatype error = KeyError | TypeError | IndexError | BindingNotFound string

text \<open>
  What a binding ends in is a Python object that is not a dictionary: an action (a function,
  known by a handle of type \<open>'a\<close>) or a string (ranger's configuration binds
  \<^verbatim>\<open><allow_quantifiers>\<close> to the string \<^verbatim>\<open>'false'\<close>, which \<^verbatim>\<open>KeyBuffer.__init__\<close> tests for).
  \<^verbatim>\<open>None\<close> is not bound. A trie is such an object or a dictionary from key symbols to tries;
  the dictionary is the list of its items in order of insertion.
\<close>

datatype 'a obj = Fn 'a | Str string

datatype 'a trie = Leaf "'a obj" | Node "(int \<times> 'a trie) list"

type_synonym 'a dict = "(int \<times> 'a trie) list"

record 'a keybuffer =
  keymap :: "'a dict"
  keys :: "int list"
  wildcards :: "int list"
  pointer :: "'a trie"
  result :: "'a trie option"
  quantifier :: "int option"
  finished_parsing_quantifier :: bool
  finished_parsing :: bool
  parse_error :: bool

text \<open>
  \<^verbatim>\<open>KeyMaps\<close> is a dictionary from context names to trie roots with two attributes. Its
  \<^verbatim>\<open>keybuffer\<close> is the object that \<^verbatim>\<open>Top\<close> also holds as \<^verbatim>\<open>self.keybuffer\<close>.
\<close>

record 'a keymaps =
  maps :: "(string \<times> 'a dict) list"
  keybuffer :: "'a keybuffer"
  used_keymap :: "string option"

subsection \<open>KeyBuffer\<close>

text \<open>
  \<^verbatim>\<open>KeyBuffer.__init__\<close> for a key map that is a dictionary (\<^verbatim>\<open>Top.__init__\<close> builds the buffer
  with \<^verbatim>\<open>keymap=None\<close> and gives it a dictionary, through \<^verbatim>\<open>use_keymap\<close>, before any key
  is added).
\<close>

definition KeyBuffer_init :: "'a dict \<Rightarrow> 'a keybuffer" where
  "KeyBuffer_init km =
    \<lparr> keymap = km, keys = [], wildcards = [], pointer = Node km, result = None,
      quantifier = None,
      finished_parsing_quantifier =
        (km \<noteq> [] \<and> QUANT_KEY \<in> fst ` set km \<and> map_of km QUANT_KEY = Some (Leaf (Str ''false''))),
      finished_parsing = False, parse_error = False \<rparr>"

definition clear :: "'a keybuffer \<Rightarrow> 'a keybuffer" where
  "clear kb = KeyBuffer_init (keymap kb)"

definition exclude_from_anykey :: "int list" where
  "exclude_from_anykey = [ascii_ESC]"

text \<open>
  The step of \<^verbatim>\<open>KeyBuffer.add\<close> through the trie: the pointer after the step, whether the
  key went through the wildcard, and \<^verbatim>\<open>moved\<close>. The test \<^verbatim>\<open>key in self.pointer\<close> raises
  \<^verbatim>\<open>TypeError\<close> when the pointer is a function or a string.
\<close>

definition move :: "'a trie \<Rightarrow> int \<Rightarrow> error + ('a trie \<times> bool \<times> bool)" where
  "move p key =
    (case p of
       Leaf _ \<Rightarrow> Inl TypeError
     | Node d \<Rightarrow>
         (case map_of d key of
            Some c \<Rightarrow> Inr (c, False, True)
          | None \<Rightarrow>
              (case map_of d ANYKEY of
                 Some c \<Rightarrow> if key \<notin> set exclude_from_anykey then Inr (c, True, True)
                           else Inr (p, False, False)
               | None \<Rightarrow> Inr (p, False, False))))"

text \<open>
  \<^verbatim>\<open>KeyBuffer.add\<close>. An exception leaves \<^verbatim>\<open>Top.loop\<close>, which catches \<^verbatim>\<open>BreakLoop\<close> only, so
  the buffer is not read again after it and the model returns the exception alone.
\<close>

definition add :: "'a keybuffer \<Rightarrow> int \<Rightarrow> error + 'a keybuffer" where
  "add kb key =
    (let kb = kb\<lparr>keys := keys kb @ [key], result := None\<rparr> in
     if \<not> finished_parsing_quantifier kb \<and> key \<in> set DIGITS then
       Inr (kb\<lparr>quantifier :=
                 Some ((case quantifier kb of None \<Rightarrow> 0 | Some q \<Rightarrow> q) * 10 + key - 48)\<rparr>)
     else
       (let kb = kb\<lparr>finished_parsing_quantifier := True\<rparr> in
        case move (pointer kb) key of
          Inl e \<Rightarrow> Inl e
        | Inr (p, wild, moved) \<Rightarrow>
            (let kb = kb\<lparr>wildcards := (if wild then wildcards kb @ [key] else wildcards kb),
                          pointer := p\<rparr> in
             if moved then
               (case p of
                  Node d \<Rightarrow>
                    (case map_of d PASSIVE_ACTION of
                       Some r \<Rightarrow> Inr (kb\<lparr>result := Some r\<rparr>)
                     | None \<Rightarrow> Inr kb)
                | Leaf _ \<Rightarrow> Inr (kb\<lparr>result := Some p, finished_parsing := True\<rparr>))
             else Inr (kb\<lparr>finished_parsing := True, parse_error := True\<rparr>))))"

text \<open>Several calls of \<^verbatim>\<open>add\<close> in a row, stopping at the first exception.\<close>

fun add_all :: "'a keybuffer \<Rightarrow> int list \<Rightarrow> error + 'a keybuffer" where
  "add_all kb [] = Inr kb"
| "add_all kb (key # rest) = (case add kb key of Inl e \<Rightarrow> Inl e | Inr kb' \<Rightarrow> add_all kb' rest)"

subsection \<open>KeyMaps\<close>

definition use_keymap :: "'a keymaps \<Rightarrow> string \<Rightarrow> 'a keymaps" where
  "use_keymap km keymap_name =
    (let kb = (keybuffer km)\<lparr>keymap := (case map_of (maps km) keymap_name of
                                            Some d \<Rightarrow> d | None \<Rightarrow> [])\<rparr> in
     if used_keymap km \<noteq> Some keymap_name then
       km\<lparr>keybuffer := clear kb, used_keymap := Some keymap_name\<rparr>
     else km\<lparr>keybuffer := kb\<rparr>)"

text \<open>
  \<^verbatim>\<open>_clean_input\<close>: the context is created when it is missing. The result is the key map set,
  the parsed keys and the root of the context.
\<close>

definition clean_input :: "'a keymaps \<Rightarrow> string \<Rightarrow> string \<Rightarrow> 'a keymaps \<times> int list \<times> 'a dict" where
  "clean_input km context ks =
    (case map_of (maps km) context of
       Some ptr \<Rightarrow> (km, parse_keybinding ks, ptr)
     | None \<Rightarrow> (km\<lparr>maps := AList.update context [] (maps km)\<rparr>, parse_keybinding ks, []))"

text \<open>
  The loop of \<^verbatim>\<open>bind\<close> over \<^verbatim>\<open>keys[:-1]\<close> and the assignment of the last key, on the
  dictionary the pointer is at; the dictionaries on the way are changed in place, so the
  model returns the dictionary it was given with the change made below it.
\<close>

fun bind_loop :: "'a dict \<Rightarrow> int list \<Rightarrow> 'a trie \<Rightarrow> 'a dict" where
  "bind_loop ptr [] leaf = ptr"
| "bind_loop ptr [last_key] leaf = AList.update last_key leaf ptr"
| "bind_loop ptr (key # rest) leaf =
     (case map_of ptr key of
        Some (Node d) \<Rightarrow> AList.update key (Node (bind_loop d rest leaf)) ptr
      | _ \<Rightarrow> AList.update key (Node (bind_loop [] rest leaf)) ptr)"

definition bind :: "'a keymaps \<Rightarrow> string \<Rightarrow> string \<Rightarrow> 'a trie \<Rightarrow> 'a keymaps" where
  "bind km context ks leaf =
    (case clean_input km context ks of
       (km, ks, ptr) \<Rightarrow>
         if ks = [] then km
         else km\<lparr>maps := AList.update context (bind_loop ptr ks leaf) (maps km)\<rparr>)"

text \<open>
  \<^verbatim>\<open>_unbind_traverse\<close> from position \<^verbatim>\<open>pos\<close>; the list is \<^verbatim>\<open>keys[pos:]\<close>. The first line,
  \<^verbatim>\<open>keys[pos] not in pointer\<close>, raises \<^verbatim>\<open>TypeError\<close> on a function or a string. The
  \<^verbatim>\<open>keys.pop()\<close> of the last branch shortens a list that no other code holds, and the
  callers up the recursion read \<^verbatim>\<open>keys[pos]\<close> at smaller positions only, so it is left out.
  After the recursive call the entry is read again: an empty dictionary is deleted.
\<close>

fun unbind_traverse :: "'a trie \<Rightarrow> int list \<Rightarrow> error + 'a trie" where
  "unbind_traverse ptr [] = Inl IndexError"
| "unbind_traverse (Leaf x) (key # rest) = Inl TypeError"
| "unbind_traverse (Node d) [key] = Inr (Node (AList.delete key d))"
| "unbind_traverse (Node d) (key # rest) =
     (case map_of d key of
        None \<Rightarrow> Inr (Node d)
      | Some child \<Rightarrow>
          (case unbind_traverse child rest of
             Inl e \<Rightarrow> Inl e
           | Inr child' \<Rightarrow>
               if child' = Node [] then Inr (Node (AList.delete key d))
               else Inr (Node (AList.update key child' d))))"

definition unbind :: "'a keymaps \<Rightarrow> string \<Rightarrow> string \<Rightarrow> error + 'a keymaps" where
  "unbind km context ks =
    (case clean_input km context ks of
       (km, ks, ptr) \<Rightarrow>
         if ks = [] then Inr km
         else (case unbind_traverse (Node ptr) ks of
                 Inl e \<Rightarrow> Inl e
               | Inr (Node d) \<Rightarrow> Inr (km\<lparr>maps := AList.update context d (maps km)\<rparr>)
               | Inr (Leaf x) \<Rightarrow> Inr km))"

text \<open>\<^verbatim>\<open>KeyMaps.__init__\<close>.\<close>

definition KeyMaps_init :: "'a keybuffer \<Rightarrow> 'a keymaps" where
  "KeyMaps_init kb = \<lparr> maps = [], keybuffer = kb, used_keymap = None \<rparr>"

section \<open>The dispatch of a key (top.py)\<close>

text \<open>
  Of \<^verbatim>\<open>Top\<close> the model keeps the key map set, whose buffer is \<^verbatim>\<open>self.keybuffer\<close>, and the rest of
  the object as a value of type \<open>'w\<close>. An action is called with the \<^verbatim>\<open>Top\<close> object: the
  parameter \<open>run\<close> gives, for an action handle, the object after the call and the exception
  the call raised, if any (\<^verbatim>\<open>quit\<close> raises \<^verbatim>\<open>BreakLoop\<close>).
\<close>

record ('a, 'w) top =
  keymaps :: "'a keymaps"
  world :: 'w

datatype 'x raised = Error error | Raised 'x

definition set_keybuffer :: "('a, 'w) top \<Rightarrow> 'a keybuffer \<Rightarrow> ('a, 'w) top" where
  "set_keybuffer t kb = t\<lparr>keymaps := (keymaps t)\<lparr>keybuffer := kb\<rparr>\<rparr>"

text \<open>
  The call \<^verbatim>\<open>keybuffer.result(self)\<close>: a string and a dictionary are not callable.
\<close>

definition call_result ::
  "('a \<Rightarrow> ('a, 'w) top \<Rightarrow> ('a, 'w) top \<times> 'x option) \<Rightarrow> 'a trie \<Rightarrow> ('a, 'w) top
    \<Rightarrow> ('a, 'w) top \<times> 'x raised option" where
  "call_result run r t =
    (case r of
       Leaf (Fn f) \<Rightarrow> (case run f t of (t', None) \<Rightarrow> (t', None) | (t', Some x) \<Rightarrow> (t', Some (Raised x)))
     | Leaf (Str s) \<Rightarrow> (t, Some (Error TypeError))
     | Node d \<Rightarrow> (t, Some (Error TypeError)))"

text \<open>
  \<^verbatim>\<open>Top.press\<close>. The result is the object after the call and either the exception that
  leaves the method or the value it returns. The \<^verbatim>\<open>finally\<close> clause runs whether the action
  raised or not.
\<close>

definition press ::
  "('a \<Rightarrow> ('a, 'w) top \<Rightarrow> ('a, 'w) top \<times> 'x option) \<Rightarrow> ('a, 'w) top \<Rightarrow> int
    \<Rightarrow> ('a, 'w) top \<times> ('x raised + bool)" where
  "press run t key =
    (case add (keybuffer (keymaps t)) key of
       Inl e \<Rightarrow> (t, Inl (Error e))
     | Inr kb \<Rightarrow>
         (let t = set_keybuffer t kb in
          case result kb of
            Some r \<Rightarrow>
              (case call_result run r t of
                 (t, exc) \<Rightarrow>
                   (let t = (if finished_parsing (keybuffer (keymaps t))
                             then set_keybuffer t (clear (keybuffer (keymaps t))) else t)
                    in case exc of Some e \<Rightarrow> (t, Inl e) | None \<Rightarrow> (t, Inr True)))
          | None \<Rightarrow>
              if finished_parsing kb then (set_keybuffer t (clear kb), Inr False)
              else (t, Inr True)))"

section \<open>The key map set over an explicit store\<close>

text \<open>
  The tries of \<^verbatim>\<open>KeyMaps\<close> are Python dictionaries that hold references to dictionaries, and
  \<^verbatim>\<open>bind\<close> and \<^verbatim>\<open>_unbind_traverse\<close> change them in place. Where a property depends on which
  dictionaries are shared, the dictionaries are objects in a store: an address is a natural
  number, the addresses below \<open>fresh\<close> are in use, and an entry of a dictionary is an object
  that is not a dictionary or the address of one.
\<close>

type_synonym addr = nat

datatype 'a slot = Obj "'a obj" | Ref addr

type_synonym 'a hdict = "(int \<times> 'a slot) list"















text \<open>
  What the store holds, read as a trie. \<open>shape h v t A\<close>: from the entry \<open>v\<close> the store \<open>h\<close>
  holds the trie \<open>t\<close>, in the dictionaries at the addresses \<open>A\<close>, each of them met once (no
  dictionary is shared) and with no key twice. \<open>shapes\<close> is the same for the items of one
  dictionary.
\<close>

inductive shape :: "(addr \<Rightarrow> 'a hdict) \<Rightarrow> 'a slot \<Rightarrow> 'a trie \<Rightarrow> addr set \<Rightarrow> bool"
  and shapes :: "(addr \<Rightarrow> 'a hdict) \<Rightarrow> 'a hdict \<Rightarrow> 'a dict \<Rightarrow> addr set \<Rightarrow> bool"
  for h :: "addr \<Rightarrow> 'a hdict" where
  shape_Obj: "shape h (Obj x) (Leaf x) {}"
| shape_Ref: "shapes h (h p) kvs A \<Longrightarrow> p \<notin> A \<Longrightarrow> distinct (map fst (h p)) \<Longrightarrow>
     shape h (Ref p) (Node kvs) (insert p A)"
| shapes_Nil: "shapes h [] [] {}"
| shapes_Cons: "shape h v t A \<Longrightarrow> shapes h d kvs B \<Longrightarrow> A \<inter> B = {} \<Longrightarrow>
     shapes h ((k, v) # d) ((k, t) # kvs) (A \<union> B)"









section \<open>Actions and states used as examples\<close>

text \<open>
  \<^verbatim>\<open>BreakLoop\<close> and the action \<^verbatim>\<open>quit\<close> of \<^verbatim>\<open>init_keybindings\<close>, which raises it and changes
  nothing.
\<close>

datatype exn = BreakLoop

definition quit :: "('a, 'w) top \<Rightarrow> ('a, 'w) top \<times> exn option" where
  "quit t = (t, Some BreakLoop)"

text \<open>
  An action that returns and leaves its handle at the end of a list, to read off which
  actions a sequence of keys has called.
\<close>

definition record_call :: "'a \<Rightarrow> ('a, 'a list) top \<Rightarrow> ('a, 'a list) top \<times> exn option" where
  "record_call f t = (t\<lparr>world := world t @ [f]\<rparr>, None)"

text \<open>
  An action that is not among those of \<^verbatim>\<open>init_keybindings\<close>: it sets the attribute
  \<^verbatim>\<open>finished_parsing\<close> of the key buffer of the \<^verbatim>\<open>Top\<close> object it is called with to \<^verbatim>\<open>False\<close>
  and raises \<^verbatim>\<open>BreakLoop\<close>.
\<close>

definition forget_and_quit :: "('a, 'w) top \<Rightarrow> ('a, 'w) top \<times> exn option" where
  "forget_and_quit t =
    (set_keybuffer t ((keybuffer (keymaps t))\<lparr>finished_parsing := False\<rparr>), Some BreakLoop)"

text \<open>
  The state of a new \<^verbatim>\<open>Top\<close> after the given calls of \<^verbatim>\<open>bind\<close> in the context \<^verbatim>\<open>root\<close> and
  \<^verbatim>\<open>use_keymap('root')\<close>, as at the end of \<^verbatim>\<open>init_keybindings\<close>.
\<close>

definition top_with :: "(string \<times> 'a trie) list \<Rightarrow> 'w \<Rightarrow> ('a, 'w) top" where
  "top_with bindings w =
    \<lparr> keymaps = use_keymap
        (fold (\<lambda>(ks, leaf) km. bind km ''root'' ks leaf) bindings (KeyMaps_init (KeyBuffer_init [])))
        ''root'',
      world = w \<rparr>"

text \<open>
  The key map set in which \<^verbatim>\<open>gg\<close> is bound in the context \<^verbatim>\<open>root\<close>, the context is in use and
  the buffer has taken one g.
\<close>

definition pending_example :: "'a::zero keymaps" where
  "pending_example =
    \<lparr> maps = [(''root'', [(103, Node [(103, Leaf (Fn 0))])])],
      keybuffer = \<lparr> keymap = [(103, Node [(103, Leaf (Fn 0))])], keys = [103], wildcards = [],
                    pointer = Node [(103, Leaf (Fn 0))], result = None, quantifier = None,
                    finished_parsing_quantifier = True, finished_parsing = False,
                    parse_error = False \<rparr>,
      used_keymap = Some ''root'' \<rparr>"


text \<open>The invariant of the key buffer behind C3.\<close>

definition buffer_inv :: "'a keybuffer \<Rightarrow> bool" where
  "buffer_inv kb =
    ((finished_parsing kb \<longrightarrow>
        parse_error kb \<or> (result kb = Some (pointer kb) \<and> (\<exists>x. pointer kb = Leaf x)))
     \<and> (parse_error kb \<longrightarrow> finished_parsing kb)
     \<and> ((\<exists>x. pointer kb = Leaf x) \<longrightarrow> finished_parsing_quantifier kb)
     \<and> (result kb \<noteq> None \<and> \<not> finished_parsing kb \<longrightarrow>
          (\<exists>d. pointer kb = Node d \<and> map_of d PASSIVE_ACTION = result kb)))"

section \<open>Properties of the key lexer\<close>

lemma parse_loop_plain:
  "CHR ''<'' \<notin> set s \<Longrightarrow> parse_loop False bc s = map ord s"
  by (induction s) auto

lemma chr_ord: "chr (ord c) = c"
  by (simp add: chr_def ord_def)

lemma key_to_string_printable:
  "33 \<le> ord c \<Longrightarrow> ord c \<le> 126 \<Longrightarrow> key_to_string (ord c) = [c]"
  by (simp add: key_to_string_def chr_ord)

lemma construct_printable:
  "\<forall>c\<in>set s. 33 \<le> ord c \<and> ord c \<le> 126 \<Longrightarrow> construct_keybinding (map ord s) = s"
  by (induction s) (simp_all add: construct_keybinding_def key_to_string_printable)

lemma key_to_string_bracket:
  "\<not> (33 \<le> k \<and> k < 127) \<Longrightarrow> hd (key_to_string k) = CHR ''<''"
  by (auto simp: key_to_string_def split: option.splits)

text \<open>
  C4, as the code has it. \<^verbatim>\<open>key_to_string\<close> gives a character back for the codes 33 to 126
  only, so a text of such characters with no bracket among them comes back from
  \<^verbatim>\<open>construct_keybinding(parse_keybinding(text))\<close> unchanged.
\<close>

theorem roundtrip_printable:
  "\<forall>c\<in>set text. 33 \<le> ord c \<and> ord c \<le> 126 \<and> c \<noteq> CHR ''<'' \<and> c \<noteq> CHR ''>''
   \<Longrightarrow> construct_keybinding (parse_keybinding text) = text"
proof -
  assume a: "\<forall>c\<in>set text. 33 \<le> ord c \<and> ord c \<le> 126 \<and> c \<noteq> CHR ''<'' \<and> c \<noteq> CHR ''>''"
  then have "CHR ''<'' \<notin> set text" by blast
  then have "parse_keybinding text = map ord text"
    by (simp add: parse_keybinding_def parse_loop_plain)
  moreover from a have "construct_keybinding (map ord text) = text"
    by (intro construct_printable) blast
  ultimately show ?thesis by simp
qed

theorem roundtrip_printable_witness:
  "list_all (\<lambda>c. 33 \<le> ord c \<and> ord c \<le> 126 \<and> c \<noteq> CHR ''<'' \<and> c \<noteq> CHR ''>'') ''g[$''
   \<and> construct_keybinding (parse_keybinding ''g[$'') = ''g[$''"
  using roundtrip_printable [of "''g[$''"] by (simp add: ord_def)

text \<open>
  C4 as the specification states it fails on the text of one space: an ASCII text with no
  bracket, which comes back as a bracketed name.
\<close>

theorem roundtrip_space_counterexample:
  "is_ascii '' '' \<and> CHR ''<'' \<notin> set '' '' \<and> CHR ''>'' \<notin> set '' ''
   \<and> construct_keybinding (parse_keybinding '' '') \<noteq> '' ''"
proof -
  have "hd (construct_keybinding (parse_keybinding '' '')) = CHR ''<''"
    using key_to_string_bracket [of 32]
    by (simp add: parse_keybinding_def construct_keybinding_def ord_def)
  then show ?thesis by (auto simp: is_ascii_def ord_def)
qed

lemma SPECIAL_KEYS_get_lt: "SPECIAL_KEYS_get ''lt'' = Some (Single 60)"
  by (simp add: SPECIAL_KEYS_get_def SPECIAL_KEYS_def SPECIAL_KEYS_literal_def)

lemma SPECIAL_KEYS_get_gt: "SPECIAL_KEYS_get ''gt'' = Some (Single 62)"
  by (simp add: SPECIAL_KEYS_get_def SPECIAL_KEYS_def SPECIAL_KEYS_literal_def)

lemma SPECIAL_KEYS_get_1: "SPECIAL_KEYS_get ''1'' = None"
  by (simp add: SPECIAL_KEYS_get_def SPECIAL_KEYS_def SPECIAL_KEYS_literal_def
      VERY_SPECIAL_KEYS_def map_of_eq_None_iff image_iff)

lemma bracket_keys_lt: "bracket_keys ''lt'' = [60]"
  by (simp add: bracket_keys_def lower_def lower_char_def ord_def SPECIAL_KEYS_get_lt)

lemma bracket_keys_gt: "bracket_keys ''gt'' = [62]"
  by (simp add: bracket_keys_def lower_def lower_char_def ord_def SPECIAL_KEYS_get_gt)

lemma bracket_keys_1: "bracket_keys ''1'' = [1]"
  by (simp add: bracket_keys_def lower_def lower_char_def ord_def SPECIAL_KEYS_get_1
      isdigit_def int_of_digits_def)

text \<open>
  C5 fails on the code. The binding string \<^verbatim>\<open><lt>1<gt>\<close> parses to the three symbols of the
  characters \<^verbatim>\<open><\<close>, 1 and \<^verbatim>\<open>>\<close>; \<^verbatim>\<open>key_to_string\<close> gives the brackets back as themselves, since
  their codes are in \<^verbatim>\<open>range(33, 127)\<close>, and the text \<^verbatim>\<open><1>\<close> that \<^verbatim>\<open>construct_keybinding\<close> returns
  parses to the single symbol 1.
\<close>

theorem reparse_brackets:
  "parse_keybinding ''<lt>1<gt>'' = [60, 49, 62]
   \<and> construct_keybinding (parse_keybinding ''<lt>1<gt>'') = ''<1>''
   \<and> parse_keybinding (construct_keybinding (parse_keybinding ''<lt>1<gt>'')) = [1]"
proof -
  have p: "parse_keybinding ''<lt>1<gt>'' = [60, 49, 62]"
    by (simp add: parse_keybinding_def bracket_keys_lt bracket_keys_gt ord_def)
  have "chr 60 = CHR ''<''" "chr 49 = CHR ''1''" "chr 62 = CHR ''>''"
    using chr_ord [of "CHR ''<''"] chr_ord [of "CHR ''1''"] chr_ord [of "CHR ''>''"]
    by (simp_all add: ord_def)
  then have c: "construct_keybinding [60, 49, 62] = ''<1>''"
    by (simp add: construct_keybinding_def key_to_string_def)
  have "parse_keybinding ''<1>'' = [1]"
    by (simp add: parse_keybinding_def bracket_keys_1)
  with p c show ?thesis by simp
qed

section \<open>Properties of the key buffer\<close>

lemmas key_consts =
  ANYKEY_def PASSIVE_ACTION_def ALT_KEY_def QUANT_KEY_def KEY_DOWN_def KEY_UP_def
  KEY_LEFT_def KEY_RIGHT_def KEY_HOME_def KEY_BACKSPACE_def KEY_F0_def KEY_DC_def
  KEY_IC_def KEY_NPAGE_def KEY_PPAGE_def KEY_BTAB_def KEY_END_def KEY_SDC_def
  ascii_DEL_def ascii_ESC_def

lemma DIGITS_simp: "set DIGITS = {48, 49, 50, 51, 52, 53, 54, 55, 56, 57}"
  by (simp add: DIGITS_def ord_def)

lemma move_Leaf: "move (Leaf x) key = Inl TypeError"
  by (simp add: move_def)

lemma move_stuck: "move p key = Inr (q, wild, False) \<Longrightarrow> q = p \<and> (\<exists>d. p = Node d)"
  by (auto simp: move_def split: trie.splits option.splits if_splits)

text \<open>The four ways in which \<^verbatim>\<open>add\<close> returns.\<close>

lemma add_cases:
  assumes "add kb key = Inr kb'"
  obtains (digit) "\<not> finished_parsing_quantifier kb" "key \<in> set DIGITS"
      "kb' = kb\<lparr>keys := keys kb @ [key], result := None,
         quantifier := Some ((case quantifier kb of None \<Rightarrow> 0 | Some q \<Rightarrow> q) * 10 + key - 48)\<rparr>"
  | (stuck) p wild where "move (pointer kb) key = Inr (p, wild, False)"
      "kb' = kb\<lparr>keys := keys kb @ [key], result := None, finished_parsing_quantifier := True,
         wildcards := (if wild then wildcards kb @ [key] else wildcards kb), pointer := p,
         finished_parsing := True, parse_error := True\<rparr>"
  | (leaf) x wild where "move (pointer kb) key = Inr (Leaf x, wild, True)"
      "kb' = kb\<lparr>keys := keys kb @ [key], result := Some (Leaf x),
         finished_parsing_quantifier := True,
         wildcards := (if wild then wildcards kb @ [key] else wildcards kb), pointer := Leaf x,
         finished_parsing := True\<rparr>"
  | (node) d wild where "move (pointer kb) key = Inr (Node d, wild, True)"
      "kb' = kb\<lparr>keys := keys kb @ [key], result := map_of d PASSIVE_ACTION,
         finished_parsing_quantifier := True,
         wildcards := (if wild then wildcards kb @ [key] else wildcards kb), pointer := Node d\<rparr>"
  using assms unfolding add_def Let_def
  by (auto split: if_splits sum.splits prod.splits trie.splits option.splits)

lemma buffer_inv_init: "buffer_inv (KeyBuffer_init km)"
  by (simp add: buffer_inv_def KeyBuffer_init_def)

lemma buffer_inv_add:
  assumes "buffer_inv kb" and "add kb key = Inr kb'"
  shows "buffer_inv kb'"
  using assms(2)
proof (cases rule: add_cases)
  case digit
  with assms(1) show ?thesis by (auto simp: buffer_inv_def)
next
  case (stuck p wild)
  then show ?thesis by (auto simp: buffer_inv_def)
next
  case (leaf x wild)
  then show ?thesis by (auto simp: buffer_inv_def)
next
  case (node d wild)
  from assms(1) node(1) have "\<not> finished_parsing kb \<or> parse_error kb"
    by (auto simp: buffer_inv_def move_Leaf)
  with assms(1) node show ?thesis by (auto simp: buffer_inv_def)
qed

lemma buffer_inv_add_all: "buffer_inv kb \<Longrightarrow> add_all kb ks = Inr kb' \<Longrightarrow> buffer_inv kb'"
proof (induction ks arbitrary: kb)
  case Nil
  then show ?case by simp
next
  case (Cons key ks)
  then obtain kb1 where "add kb key = Inr kb1" and "add_all kb1 ks = Inr kb'"
    by (auto split: sum.splits)
  with Cons show ?case by (blast intro: buffer_inv_add)
qed

text \<open>
  C3, as the code has it. In every state that calls of \<^verbatim>\<open>add\<close> reach from a new buffer,
  parsing-finished implies that a result is set or parse-error is true, and parse-error
  implies parsing-finished. The converse for the result fails: a result that is set while
  parsing is not finished is the \<^verbatim>\<open>PASSIVE_ACTION\<close> entry of the node the pointer is at.
\<close>

theorem finished_parsing_invariant:
  "add_all (KeyBuffer_init km) ks = Inr kb \<Longrightarrow>
     (finished_parsing kb \<longrightarrow> result kb \<noteq> None \<or> parse_error kb)
   \<and> (parse_error kb \<longrightarrow> finished_parsing kb)
   \<and> (result kb \<noteq> None \<and> \<not> finished_parsing kb \<longrightarrow>
        (\<exists>d. pointer kb = Node d \<and> map_of d PASSIVE_ACTION = result kb))"
  using buffer_inv_add_all [OF buffer_inv_init, of km ks kb] by (auto simp: buffer_inv_def)

theorem finished_parsing_invariant_witness:
  "map_sum id (\<lambda>kb. (finished_parsing kb, result kb, parse_error kb, pointer kb))
     (add_all (KeyBuffer_init [(103, Node [(103, Leaf (Fn (0::nat)))])]) [103, 103])
   = Inr (True, Some (Leaf (Fn 0)), False, Leaf (Fn 0))
   \<and> map_sum id (\<lambda>kb. (finished_parsing kb, result kb, parse_error kb))
     (add_all (KeyBuffer_init [(103, Node [(103, Leaf (Fn (0::nat)))])]) [103, 120])
   = Inr (True, None, True)"
proof -
  let ?km = "[(103, Node [(103, Leaf (Fn (0::nat)))])]"
  obtain kb where kb: "add_all (KeyBuffer_init ?km) [103, 103] = Inr kb"
    by (simp add: add_def move_def KeyBuffer_init_def DIGITS_simp key_consts)
  obtain kb' where kb': "add_all (KeyBuffer_init ?km) [103, 120] = Inr kb'"
    by (simp add: add_def move_def KeyBuffer_init_def DIGITS_simp key_consts exclude_from_anykey_def)
  show ?thesis
    using finished_parsing_invariant [OF kb] finished_parsing_invariant [OF kb']
    by (simp add: add_def move_def KeyBuffer_init_def DIGITS_simp key_consts exclude_from_anykey_def)
qed

text \<open>
  C3 as the specification states it fails: with \<^verbatim>\<open>g<bg>\<close> and \<^verbatim>\<open>gg\<close> bound, the key g sets
  a result and leaves parsing unfinished.
\<close>

theorem passive_result_counterexample:
  "map_sum id (\<lambda>kb. (finished_parsing kb, result kb, parse_error kb))
     (add_all (KeyBuffer_init
        [(103, Node [(PASSIVE_ACTION, Leaf (Fn (1::nat))), (103, Leaf (Fn 0))])]) [103])
   = Inr (False, Some (Leaf (Fn 1)), False)"
  by (simp add: add_def move_def KeyBuffer_init_def DIGITS_simp key_consts)



lemma add_bound_leaf:
  "finished_parsing_quantifier kb \<or> key \<notin> set DIGITS \<Longrightarrow> pointer kb = Node d \<Longrightarrow>
   map_of d key = Some (Leaf x) \<Longrightarrow>
   add kb key = Inr (kb\<lparr>keys := keys kb @ [key], result := Some (Leaf x),
      finished_parsing_quantifier := True, pointer := Leaf x, finished_parsing := True\<rparr>)"
  by (auto simp: add_def move_def Let_def)








section \<open>Properties of the key map set\<close>

text \<open>
  C7. \<^verbatim>\<open>use_keymap\<close> with the name of the context in use leaves the keys the buffer has
  consumed, its wildcards, pointer, result, quantifier and flags as they are; with another
  name it leaves a buffer in the initial state on the trie of the new context.
\<close>

theorem use_keymap_buffer:
  "(used_keymap km = Some name \<longrightarrow>
      keys (keybuffer (use_keymap km name)) = keys (keybuffer km)
    \<and> wildcards (keybuffer (use_keymap km name)) = wildcards (keybuffer km)
    \<and> pointer (keybuffer (use_keymap km name)) = pointer (keybuffer km)
    \<and> result (keybuffer (use_keymap km name)) = result (keybuffer km)
    \<and> quantifier (keybuffer (use_keymap km name)) = quantifier (keybuffer km)
    \<and> finished_parsing_quantifier (keybuffer (use_keymap km name))
        = finished_parsing_quantifier (keybuffer km)
    \<and> finished_parsing (keybuffer (use_keymap km name)) = finished_parsing (keybuffer km)
    \<and> parse_error (keybuffer (use_keymap km name)) = parse_error (keybuffer km))
   \<and> (used_keymap km \<noteq> Some name \<longrightarrow>
      keybuffer (use_keymap km name)
        = KeyBuffer_init (case map_of (maps km) name of Some d \<Rightarrow> d | None \<Rightarrow> [])
    \<and> keys (keybuffer (use_keymap km name)) = []
    \<and> wildcards (keybuffer (use_keymap km name)) = []
    \<and> quantifier (keybuffer (use_keymap km name)) = None
    \<and> result (keybuffer (use_keymap km name)) = None
    \<and> pointer (keybuffer (use_keymap km name))
        = Node (case map_of (maps km) name of Some d \<Rightarrow> d | None \<Rightarrow> [])
    \<and> \<not> finished_parsing (keybuffer (use_keymap km name))
    \<and> \<not> parse_error (keybuffer (use_keymap km name))
    \<and> used_keymap (use_keymap km name) = Some name)"
  by (simp add: use_keymap_def clear_def KeyBuffer_init_def)

text \<open>
  The witness: \<^verbatim>\<open>gg\<close> is bound in the context \<^verbatim>\<open>root\<close>, which is in use, and one g has been
  added to the buffer.
\<close>

theorem use_keymap_buffer_witness:
  "used_keymap (pending_example :: nat keymaps) = Some ''root''
   \<and> keys (keybuffer (use_keymap (pending_example :: nat keymaps) ''root'')) = [103]
   \<and> pointer (keybuffer (use_keymap (pending_example :: nat keymaps) ''root''))
       = Node [(103, Leaf (Fn 0))]
   \<and> used_keymap (pending_example :: nat keymaps) \<noteq> Some ''other''
   \<and> keys (keybuffer (use_keymap (pending_example :: nat keymaps) ''other'')) = []
   \<and> pointer (keybuffer (use_keymap (pending_example :: nat keymaps) ''other'')) = Node []"
  using use_keymap_buffer [of "pending_example :: nat keymaps" "''root''"]
    use_keymap_buffer [of "pending_example :: nat keymaps" "''other''"]
  by (simp add: pending_example_def KeyBuffer_init_def)

lemma unbind_traverse_bind_loop:
  "ks \<noteq> [] \<Longrightarrow> unbind_traverse (Node (bind_loop [] ks leaf)) ks = Inr (Node [])"
proof (induction ks)
  case Nil
  then show ?case by simp
next
  case (Cons k ks)
  show ?case
  proof (cases ks)
    case Nil
    then show ?thesis by simp
  next
    case (Cons k' rest)
    with Cons.IH
    have "unbind_traverse (Node (bind_loop [] (k' # rest) leaf)) (k' # rest) = Inr (Node [])"
      by simp
    with Cons show ?thesis by simp
  qed
qed

text \<open>
  C9. In a context that is missing or empty, \<^verbatim>\<open>bind\<close> of a key sequence builds one chain of
  nodes, and \<^verbatim>\<open>unbind\<close> of the same sequence returns and leaves the root of the context
  empty: the leaf and every node of the chain are gone.
\<close>

theorem bind_unbind_empty:
  "map_of (maps km) context = None \<or> map_of (maps km) context = Some [] \<Longrightarrow>
     map_of (maps (bind km context text leaf)) context
       = Some (bind_loop [] (parse_keybinding text) leaf)
   \<and> (\<exists>km'. unbind (bind km context text leaf) context text = Inr km'
         \<and> map_of (maps km') context = Some [])"
  by (auto simp: unbind_def bind_def clean_input_def update_conv' unbind_traverse_bind_loop
      split: option.splits)

theorem bind_unbind_empty_witness:
  "map_of (maps (KeyMaps_init (KeyBuffer_init []) :: nat keymaps)) ''root'' = None
   \<and> map_of (maps (bind (KeyMaps_init (KeyBuffer_init [])) ''root'' ''abc'' (Leaf (Fn (0::nat)))))
       ''root''
     = Some [(97, Node [(98, Node [(99, Leaf (Fn 0))])])]
   \<and> map_sum id (\<lambda>km'. map_of (maps km') ''root'')
       (unbind (bind (KeyMaps_init (KeyBuffer_init [])) ''root'' ''abc'' (Leaf (Fn (0::nat))))
          ''root'' ''abc'')
     = Inr (Some [])"
proof -
  let ?km = "KeyMaps_init (KeyBuffer_init []) :: nat keymaps"
  have none: "map_of (maps ?km) ''root'' = None"
    by (simp add: KeyMaps_init_def)
  have abc: "parse_keybinding ''abc'' = [97, 98, 99]"
    by (simp add: parse_keybinding_def ord_def)
  from bind_unbind_empty [of ?km "''root''" "''abc''" "Leaf (Fn 0)"] none
  obtain km' where "map_of (maps (bind ?km ''root'' ''abc'' (Leaf (Fn 0)))) ''root''
       = Some (bind_loop [] (parse_keybinding ''abc'') (Leaf (Fn 0)))"
    and "unbind (bind ?km ''root'' ''abc'' (Leaf (Fn 0))) ''root'' ''abc'' = Inr km'"
    and "map_of (maps km') ''root'' = Some []"
    by blast
  with none show ?thesis by (simp add: abc)
qed

text \<open>
  C1 fails on the code. With g bound to an action, \<^verbatim>\<open>unbind\<close> of \<^verbatim>\<open>gg\<close> reaches the action
  and the test \<^verbatim>\<open>keys[pos] not in pointer\<close> raises \<^verbatim>\<open>TypeError\<close> before the test
  \<^verbatim>\<open>isinstance(pointer, dict)\<close> is made.
\<close>

theorem unbind_past_leaf_raises:
  "unbind (bind (KeyMaps_init (KeyBuffer_init [])) ''root'' ''g'' (Leaf (Fn a))) ''root'' ''gg''
     = Inl TypeError"
  by (simp add: unbind_def bind_def clean_input_def KeyMaps_init_def parse_keybinding_def ord_def)

text \<open>
  C2, as the code has it. After \<^verbatim>\<open>gg\<close> is bound to A and then g to B, the entry of g in the
  root of the context is B itself: the subtree that held A has been replaced. A new buffer on
  the context matches B at the key g and has finished parsing, so the dispatch clears it and
  every further g matches B again.
\<close>

theorem later_binding_wins:
  "\<exists>root kb.
      map_of (maps (bind (bind km context ''gg'' (Leaf (Fn A))) context ''g'' (Leaf (Fn B)))) context
        = Some root
    \<and> map_of root 103 = Some (Leaf (Fn B))
    \<and> add (KeyBuffer_init root) 103 = Inr kb
    \<and> result kb = Some (Leaf (Fn B)) \<and> finished_parsing kb \<and> \<not> parse_error kb
    \<and> clear kb = KeyBuffer_init root"
proof -
  have gg: "parse_keybinding ''gg'' = [103, 103]" and g: "parse_keybinding ''g'' = [103]"
    by (simp_all add: parse_keybinding_def ord_def)
  let ?km1 = "bind km context ''gg'' (Leaf (Fn A))"
  have "\<exists>root1. map_of (maps ?km1) context = Some root1"
    by (cases "map_of (maps km) context") (simp_all add: bind_def clean_input_def gg update_conv')
  then obtain root1 where r1: "map_of (maps ?km1) context = Some root1" ..
  let ?root = "AList.update 103 (Leaf (Fn B)) root1"
  have r2: "map_of (maps (bind ?km1 context ''g'' (Leaf (Fn B)))) context = Some ?root"
    using r1 by (simp add: bind_def clean_input_def g update_conv')
  have look: "map_of ?root 103 = Some (Leaf (Fn B))"
    by (simp add: update_conv')
  have "add (KeyBuffer_init ?root) 103
      = Inr ((KeyBuffer_init ?root)\<lparr>keys := keys (KeyBuffer_init ?root) @ [103],
          result := Some (Leaf (Fn B)), finished_parsing_quantifier := True,
          pointer := Leaf (Fn B), finished_parsing := True\<rparr>)"
    using look by (intro add_bound_leaf [where d = ?root]) (simp_all add: DIGITS_simp KeyBuffer_init_def)
  with r2 look show ?thesis
    by (simp add: clear_def KeyBuffer_init_def)
qed

text \<open>
  C2 as the specification states it fails: in a new \<^verbatim>\<open>Top\<close> with \<^verbatim>\<open>gg\<close> bound to the action
  0 and then g to the action 1, the keys g, g call the action 1 twice and the action 0 never.
\<close>

theorem gg_then_g_counterexample:
  "world (fst (press record_call
      (fst (press record_call
         (top_with [(''gg'', Leaf (Fn (0::nat))), (''g'', Leaf (Fn 1))] []) 103)) 103))
   = [1, 1]"
  by (simp add: top_with_def press_def call_result_def record_call_def set_keybuffer_def
      use_keymap_def bind_def clean_input_def KeyMaps_init_def clear_def KeyBuffer_init_def
      add_def move_def parse_keybinding_def ord_def DIGITS_simp key_consts)

section \<open>Properties of the dispatch\<close>

text \<open>
  C10, as the code has it. \<^verbatim>\<open>press\<close> reads the flag \<^verbatim>\<open>finished_parsing\<close> in its \<^verbatim>\<open>finally\<close>
  clause, after the call of the result. When \<^verbatim>\<open>add\<close> leaves a result and parsing finished,
  and no action resets the flag of a buffer that has it set (the actions of
  \<^verbatim>\<open>init_keybindings\<close> do not touch the buffer), \<^verbatim>\<open>press\<close> ends with the buffer in its initial
  state on its key map, whether the call returned or raised; an exception of the call leaves
  \<^verbatim>\<open>press\<close> after that. A result that is not callable raises \<^verbatim>\<open>TypeError\<close> and is covered.
\<close>

theorem press_clears_buffer:
  assumes "add (keybuffer (keymaps t)) key = Inr kb" and "result kb = Some r"
    and "finished_parsing kb"
    and keep: "\<And>f t0. finished_parsing (keybuffer (keymaps t0)) \<Longrightarrow>
            finished_parsing (keybuffer (keymaps (fst (run f t0))))"
    and "call_result run r (set_keybuffer t kb) = (t', exc)"
  shows "keybuffer (keymaps (fst (press run t key))) = KeyBuffer_init (keymap (keybuffer (keymaps t')))
   \<and> keys (keybuffer (keymaps (fst (press run t key)))) = []
   \<and> wildcards (keybuffer (keymaps (fst (press run t key)))) = []
   \<and> quantifier (keybuffer (keymaps (fst (press run t key)))) = None
   \<and> result (keybuffer (keymaps (fst (press run t key)))) = None
   \<and> \<not> finished_parsing (keybuffer (keymaps (fst (press run t key))))
   \<and> snd (press run t key) = (case exc of Some e \<Rightarrow> Inl e | None \<Rightarrow> Inr True)"
proof -
  have kb: "finished_parsing (keybuffer (keymaps (set_keybuffer t kb)))"
    using assms(3) by (simp add: set_keybuffer_def)
  have "finished_parsing (keybuffer (keymaps t'))"
  proof (cases r)
    case (Leaf x)
    show ?thesis
    proof (cases x)
      case (Fn f)
      with Leaf assms(5) have "t' = fst (run f (set_keybuffer t kb))"
        by (auto simp: call_result_def split: prod.splits option.splits)
      with keep [OF kb] show ?thesis by simp
    next
      case (Str s)
      with Leaf assms(5) kb show ?thesis by (simp add: call_result_def)
    qed
  next
    case (Node d)
    with assms(5) kb show ?thesis by (simp add: call_result_def)
  qed
  with assms(1,2,5) show ?thesis
    by (auto simp: press_def Let_def set_keybuffer_def clear_def KeyBuffer_init_def
        split: option.splits)
qed

text \<open>
  The witness: q is bound to \<^verbatim>\<open>quit\<close>, which raises \<^verbatim>\<open>BreakLoop\<close>; the digit 3 and the key q
  are pressed.
\<close>

theorem press_clears_buffer_witness:
  "snd (press (\<lambda>f. quit) (fst (press (\<lambda>f. quit) (top_with [(''q'', Leaf (Fn (0::nat)))] ()) 51)) 113)
     = Inl (Raised BreakLoop)
   \<and> keys (keybuffer (keymaps (fst (press (\<lambda>f. quit) (top_with [(''q'', Leaf (Fn (0::nat)))] ()) 51))))
     = [51]
   \<and> keys (keybuffer (keymaps
       (fst (press (\<lambda>f. quit) (fst (press (\<lambda>f. quit) (top_with [(''q'', Leaf (Fn (0::nat)))] ()) 51)) 113))))
     = []
   \<and> quantifier (keybuffer (keymaps
       (fst (press (\<lambda>f. quit) (fst (press (\<lambda>f. quit) (top_with [(''q'', Leaf (Fn (0::nat)))] ()) 51)) 113))))
     = None"
proof -
  let ?run = "\<lambda>f::nat. (quit :: (nat, unit) top \<Rightarrow> _)"
  let ?root = "[(113, Leaf (Fn (0::nat)))]"
  let ?t0 = "top_with [(''q'', Leaf (Fn (0::nat)))] ()"
  let ?kb1 = "(KeyBuffer_init ?root)\<lparr>keys := [51], quantifier := Some 3\<rparr>"
  let ?kb2 = "?kb1\<lparr>keys := [51, 113], result := Some (Leaf (Fn 0)), finished_parsing_quantifier := True,
                  pointer := Leaf (Fn 0), finished_parsing := True\<rparr>"
  have t0: "?t0 = \<lparr>keymaps = \<lparr>maps = [(''root'', ?root)], keybuffer = KeyBuffer_init ?root,
                              used_keymap = Some ''root''\<rparr>, world = ()\<rparr>"
    by (simp add: top_with_def use_keymap_def bind_def clean_input_def KeyMaps_init_def clear_def
        KeyBuffer_init_def parse_keybinding_def ord_def)
  have p1: "press ?run ?t0 51 = (set_keybuffer ?t0 ?kb1, Inr True)"
    unfolding t0
    by (simp add: press_def set_keybuffer_def KeyBuffer_init_def add_def DIGITS_simp key_consts)
  let ?t1 = "set_keybuffer ?t0 ?kb1"
  have a2: "add (keybuffer (keymaps ?t1)) 113 = Inr ?kb2"
    by (simp add: set_keybuffer_def KeyBuffer_init_def add_def move_def DIGITS_simp key_consts)
  have c2: "call_result ?run (Leaf (Fn 0)) (set_keybuffer ?t1 ?kb2)
      = (set_keybuffer ?t1 ?kb2, Some (Raised BreakLoop))"
    by (simp add: call_result_def quit_def)
  have keep: "\<And>(f::nat) t0 :: (nat, unit) top. finished_parsing (keybuffer (keymaps t0)) \<Longrightarrow>
      finished_parsing (keybuffer (keymaps (fst (quit t0))))"
    by (simp add: quit_def)
  have "keys (keybuffer (keymaps (fst (press ?run ?t1 113)))) = []
      \<and> quantifier (keybuffer (keymaps (fst (press ?run ?t1 113)))) = None
      \<and> snd (press ?run ?t1 113) = Inl (Raised BreakLoop)"
    using press_clears_buffer [where run = ?run, OF a2 _ _ keep c2]
    by (simp add: set_keybuffer_def KeyBuffer_init_def)
  then show ?thesis
    unfolding p1 by (simp add: set_keybuffer_def KeyBuffer_init_def)
qed

text \<open>
  C10 as the specification states it, for every action, fails: with q bound to an action that
  resets the flag and raises \<^verbatim>\<open>BreakLoop\<close>, the keys 3 and q leave the exception, and the buffer
  still holds both keys and the quantifier 3.
\<close>

theorem press_keeps_stale_counterexample:
  "snd (press (\<lambda>f. forget_and_quit)
          (fst (press (\<lambda>f. forget_and_quit) (top_with [(''q'', Leaf (Fn (0::nat)))] ()) 51)) 113)
     = Inl (Raised BreakLoop)
   \<and> keys (keybuffer (keymaps (fst (press (\<lambda>f. forget_and_quit)
          (fst (press (\<lambda>f. forget_and_quit) (top_with [(''q'', Leaf (Fn (0::nat)))] ()) 51)) 113))))
     = [51, 113]
   \<and> quantifier (keybuffer (keymaps (fst (press (\<lambda>f. forget_and_quit)
          (fst (press (\<lambda>f. forget_and_quit) (top_with [(''q'', Leaf (Fn (0::nat)))] ()) 51)) 113))))
     = Some 3"
proof -
  let ?run = "\<lambda>f::nat. (forget_and_quit :: (nat, unit) top \<Rightarrow> _)"
  let ?root = "[(113, Leaf (Fn (0::nat)))]"
  let ?t0 = "top_with [(''q'', Leaf (Fn (0::nat)))] ()"
  let ?kb1 = "(KeyBuffer_init ?root)\<lparr>keys := [51], quantifier := Some 3\<rparr>"
  have t0: "?t0 = \<lparr>keymaps = \<lparr>maps = [(''root'', ?root)], keybuffer = KeyBuffer_init ?root,
                              used_keymap = Some ''root''\<rparr>, world = ()\<rparr>"
    by (simp add: top_with_def use_keymap_def bind_def clean_input_def KeyMaps_init_def clear_def
        KeyBuffer_init_def parse_keybinding_def ord_def)
  have p1: "press ?run ?t0 51 = (set_keybuffer ?t0 ?kb1, Inr True)"
    unfolding t0
    by (simp add: press_def set_keybuffer_def KeyBuffer_init_def add_def DIGITS_simp key_consts)
  show ?thesis
    unfolding p1 unfolding t0
    by (simp add: press_def set_keybuffer_def KeyBuffer_init_def add_def move_def DIGITS_simp
        key_consts call_result_def forget_and_quit_def)
qed

section \<open>Properties of the key map set over the store\<close>

subsection \<open>The trie that a store holds\<close>

inductive_cases shape_LeafE: "shape h v (Leaf x) A"
inductive_cases shape_NodeE: "shape h v (Node kvs) A"
inductive_cases shapes_Cons2E: "shapes h d (y # kvs) A"









subsection \<open>The operations on the store and on the trie\<close>










subsection \<open>Entries at other key sequences\<close>











lemma unbind_traverse_Node: "unbind_traverse (Node d) p = Inr t' \<Longrightarrow> \<exists>d'. t' = Node d'"
  by (cases "(Node d, p)" rule: unbind_traverse.cases) (auto split: option.splits sum.splits if_splits)

subsection \<open>The operations on a context\<close>



















end
